theory Spec2Isabelle
  imports Complex_Main "HOL-Library.Sublist" "HOL-Library.Multiset"
begin

section \<open>Python values, dictionaries and exceptions\<close>

text \<open>
  The values a Firestore document field or a Python local of \<^verbatim>\<open>main.py\<close> can hold.
  Python \<^verbatim>\<open>int\<close> and \<^verbatim>\<open>float\<close> are both \<open>PNum\<close>, over the reals: the model idealises
  floating point. \<open>PStr\<close> is \<^verbatim>\<open>str\<close>, \<open>PBytes\<close> is \<^verbatim>\<open>bytes\<close> (the stored password),
  \<open>PGeo\<close> is \<^verbatim>\<open>firestore.GeoPoint(latitude, longitude)\<close>.
  A \<^verbatim>\<open>dict\<close> is an association list in insertion order; its keys are distinct in
  every dictionary Python builds, and lookup reads the first entry of a key.
\<close>

datatype pyval =
    PNone
  | PBool bool
  | PNum real
  | PStr string
  | PBytes string
  | PGeo real real
  | PList "pyval list"
  | PDict "(string \<times> pyval) list"

type_synonym dict = "(string \<times> pyval) list"


text \<open>The exceptions the modelled code can raise; all are subclasses of \<^verbatim>\<open>Exception\<close>.\<close>

datatype exn =
    NameError
  | AttributeError
  | TypeError
  | ValueError
  | KeyError
  | UnicodeEncodeError
  | HTTPException nat string

definition dict_get :: "dict \<Rightarrow> string \<Rightarrow> pyval option" where
  "dict_get d k = map_of d k"

text \<open>\<^verbatim>\<open>d[k] = v\<close>: an existing key keeps its place, a new key goes last.\<close>

fun dict_set :: "dict \<Rightarrow> string \<Rightarrow> pyval \<Rightarrow> dict" where
  "dict_set [] k v = [(k, v)]"
| "dict_set ((k', v') # d) k v =
     (if k' = k then (k, v) # d else (k', v') # dict_set d k v)"

text \<open>\<^verbatim>\<open>d.get(k)\<close> and \<^verbatim>\<open>d.get(k, default)\<close>.\<close>

definition py_get_default :: "dict \<Rightarrow> string \<Rightarrow> pyval \<Rightarrow> pyval" where
  "py_get_default d k dflt = (case dict_get d k of None \<Rightarrow> dflt | Some v \<Rightarrow> v)"

definition py_get :: "dict \<Rightarrow> string \<Rightarrow> pyval" where
  "py_get d k = py_get_default d k PNone"

text \<open>Truth value testing, as \<^verbatim>\<open>if x:\<close> and \<^verbatim>\<open>not x\<close> do it.\<close>

fun truthy :: "pyval \<Rightarrow> bool" where
  "truthy PNone = False"
| "truthy (PBool b) = b"
| "truthy (PNum x) = (x \<noteq> 0)"
| "truthy (PStr s) = (s \<noteq> [])"
| "truthy (PBytes b) = (b \<noteq> [])"
| "truthy (PGeo la lo) = True"
| "truthy (PList xs) = (xs \<noteq> [])"
| "truthy (PDict d) = (d \<noteq> [])"

fun is_geopoint :: "pyval \<Rightarrow> bool" where
  "is_geopoint (PGeo la lo) = True"
| "is_geopoint v = False"

section \<open>Stored documents\<close>

text \<open>
  A document snapshot of a document that exists, as \<^verbatim>\<open>stream()\<close> yields it:
  \<^verbatim>\<open>doc.id\<close> and \<^verbatim>\<open>doc.to_dict()\<close>.
\<close>

record document =
  doc_id :: string
  doc_fields :: dict

definition to_dict :: "document \<Rightarrow> dict" where
  "to_dict doc = doc_fields doc"

section \<open>serialize_firestore_document (main.py, lines 21-30)\<close>

text \<open>
  The loop over \<^verbatim>\<open>data.items()\<close> assigns only to the key it is visiting, so on a
  dictionary it rewrites each value in place.
\<close>

definition serialize_firestore_document :: "document \<Rightarrow> dict" where
  "serialize_firestore_document doc =
     (let data = to_dict doc;
          data = dict_set data ''id'' (PStr (doc_id doc))
      in map (\<lambda>(key, val).
               (key, (case val of
                        PGeo la lo \<Rightarrow> PDict [(''latitude'', PNum la), (''longitude'', PNum lo)]
                      | _ \<Rightarrow> val))) data)"

section \<open>hash_password and verify_password (main.py, lines 32-41)\<close>






section \<open>The module's global names\<close>

text \<open>
  The functions of \<^verbatim>\<open>main.py\<close> read two global names that the language resolves when the
  function runs. \<^verbatim>\<open>math\<close> is read by \<^verbatim>\<open>haversine\<close>; a module that binds it gives the
  functions below, and a module that does not bind it makes the lookup raise
  \<^verbatim>\<open>NameError\<close>. \<^verbatim>\<open>status\<close> is the module imported from \<^verbatim>\<open>fastapi\<close>: a table of names
  and numbers, where reading a name it does not have raises \<^verbatim>\<open>AttributeError\<close>.
\<close>

record math_module =
  radians :: "real \<Rightarrow> real"
  math_sin :: "real \<Rightarrow> real"
  math_cos :: "real \<Rightarrow> real"
  math_sqrt :: "real \<Rightarrow> exn + real"
  math_atan2 :: "real \<Rightarrow> real \<Rightarrow> real"

record globals =
  g_math :: "math_module option"
  g_status :: "(string \<times> nat) list"

text \<open>
  \<^verbatim>\<open>fastapi.status\<close> is Starlette's module of status codes. Its names have the form
  \<^verbatim>\<open>HTTP_<code>_<REASON>\<close>; the table lists the success codes and the client and server
  errors this service uses. The name for 200 is \<^verbatim>\<open>HTTP_200_OK\<close>: the module has no
  \<^verbatim>\<open>HTTP_200_SUCCESS\<close>.
\<close>

definition fastapi_status :: "(string \<times> nat) list" where
  "fastapi_status =
     [(''HTTP_200_OK'', 200), (''HTTP_201_CREATED'', 201), (''HTTP_202_ACCEPTED'', 202),
      (''HTTP_203_NON_AUTHORITATIVE_INFORMATION'', 203), (''HTTP_204_NO_CONTENT'', 204),
      (''HTTP_205_RESET_CONTENT'', 205), (''HTTP_206_PARTIAL_CONTENT'', 206),
      (''HTTP_207_MULTI_STATUS'', 207), (''HTTP_208_ALREADY_REPORTED'', 208),
      (''HTTP_226_IM_USED'', 226), (''HTTP_400_BAD_REQUEST'', 400),
      (''HTTP_404_NOT_FOUND'', 404), (''HTTP_500_INTERNAL_SERVER_ERROR'', 500)]"

text \<open>
  The global namespace of \<^verbatim>\<open>main.py\<close> as its lines 1-10 build it: the imports are
  \<^verbatim>\<open>fastapi\<close>, \<^verbatim>\<open>pydantic\<close>, \<^verbatim>\<open>typing\<close>, \<^verbatim>\<open>firebase_admin\<close>, \<^verbatim>\<open>hashlib\<close>, \<^verbatim>\<open>os\<close> and
  \<^verbatim>\<open>datetime\<close>. No statement of the file binds \<^verbatim>\<open>math\<close>.
\<close>

definition main_globals :: globals where
  "main_globals = \<lparr>g_math = None, g_status = fastapi_status\<rparr>"

text \<open>\<^verbatim>\<open>status.NAME\<close>.\<close>

definition status_attr :: "globals \<Rightarrow> string \<Rightarrow> exn + nat" where
  "status_attr g name =
     (case map_of (g_status g) name of None \<Rightarrow> Inl AttributeError | Some code \<Rightarrow> Inr code)"

section \<open>haversine (main.py, lines 44-50)\<close>

text \<open>The numbers among the values: \<^verbatim>\<open>bool\<close> is a subclass of \<^verbatim>\<open>int\<close>.\<close>

fun num_of :: "pyval \<Rightarrow> real option" where
  "num_of (PNum x) = Some x"
| "num_of (PBool b) = Some (if b then 1 else 0)"
| "num_of v = None"

text \<open>
  The first thing the body evaluates is the name \<^verbatim>\<open>math\<close>. With the name bound, the
  subtractions raise \<^verbatim>\<open>TypeError\<close> unless all four arguments are numbers, and
  \<^verbatim>\<open>math.sqrt\<close> may raise on a negative argument.
\<close>

definition haversine :: "globals \<Rightarrow> pyval \<Rightarrow> pyval \<Rightarrow> pyval \<Rightarrow> pyval \<Rightarrow> exn + real" where
  "haversine g lat1 lon1 lat2 lon2 =
     (case g_math g of
        None \<Rightarrow> Inl NameError
      | Some m \<Rightarrow>
          (case (num_of lat1, num_of lon1, num_of lat2, num_of lon2) of
             (Some la1, Some lo1, Some la2, Some lo2) \<Rightarrow>
               (let R = 6371;
                    dlat = radians m (la2 - la1);
                    dlon = radians m (lo2 - lo1);
                    a = (math_sin m (dlat / 2))\<^sup>2 +
                        math_cos m (radians m la1) * math_cos m (radians m la2) *
                        (math_sin m (dlon / 2))\<^sup>2
                in case math_sqrt m a of
                     Inl e \<Rightarrow> Inl e
                   | Inr s1 \<Rightarrow>
                       (case math_sqrt m (1 - a) of
                          Inl e \<Rightarrow> Inl e
                        | Inr s2 \<Rightarrow> Inr (R * (2 * math_atan2 m s1 s2))))
           | _ \<Rightarrow> Inl TypeError))"

section \<open>Requests, responses and the document store\<close>

text \<open>
  Both search handlers are registered with \<^verbatim>\<open>app.route\<close>, Starlette's own decorator, so
  the framework calls them with its \<^verbatim>\<open>Request\<close>. \<^verbatim>\<open>request.query_params\<close> is a
  \<^verbatim>\<open>QueryParams\<close>: an immutable multi-dictionary of the names and values of the query
  string, read with \<^verbatim>\<open>get\<close> or by subscript. The class defines no \<^verbatim>\<open>__call__\<close>, so the
  expression \<^verbatim>\<open>query_params(name, ...)\<close> of the handlers raises \<^verbatim>\<open>TypeError\<close>, whatever the
  name, the keyword arguments and the query string are.
\<close>

record request =
  query_params :: "(string \<times> string) list"

definition call_query_params :: "(string \<times> string) list \<Rightarrow> string \<Rightarrow> exn + 'a" where
  "call_query_params qp name = Inl TypeError"

record response =
  content :: "dict list"
  status_code :: nat

text \<open>\<^verbatim>\<open>JSONResponse(content=jsonable_encoder(xs), status_code=s)\<close>; the encoder is the framework's.\<close>

definition JSONResponse :: "dict list \<Rightarrow> nat \<Rightarrow> response" where
  "JSONResponse xs s = \<lparr>content = xs, status_code = s\<rparr>"

text \<open>
  The store holds two collections. \<^verbatim>\<open>stream()\<close> yields the documents of a query in
  order, \<^verbatim>\<open>where(field, '==', v)\<close> keeps those whose field equals \<open>v\<close>,
  \<^verbatim>\<open>where(field, '!=', None)\<close> those that have the field with a value other than null, and
  \<^verbatim>\<open>document(id).get()\<close> finds the document of that id, if it exists.
\<close>

record database =
  products :: "document list"
  users :: "document list"

definition where_eq :: "string \<Rightarrow> pyval \<Rightarrow> document list \<Rightarrow> document list" where
  "where_eq field v docs = filter (\<lambda>d. dict_get (doc_fields d) field = Some v) docs"

definition where_not_none :: "string \<Rightarrow> document list \<Rightarrow> document list" where
  "where_not_none field docs =
     filter (\<lambda>d. case dict_get (doc_fields d) field of None \<Rightarrow> False | Some v \<Rightarrow> v \<noteq> PNone) docs"

definition document_get :: "document list \<Rightarrow> string \<Rightarrow> document option" where
  "document_get docs i = find (\<lambda>d. doc_id d = i) docs"

text \<open>
  A \<^verbatim>\<open>for\<close> loop that appends to a result list: the body either raises, skips the element
  (\<^verbatim>\<open>continue\<close>, \<open>None\<close>) or appends a value. The first exception ends the loop.
\<close>

fun for_each :: "('a \<Rightarrow> exn + 'b option) \<Rightarrow> 'a list \<Rightarrow> exn + 'b list" where
  "for_each body [] = Inr []"
| "for_each body (x # xs) =
     (case body x of
        Inl e \<Rightarrow> Inl e
      | Inr r \<Rightarrow>
          (case for_each body xs of
             Inl e \<Rightarrow> Inl e
           | Inr rest \<Rightarrow> Inr (case r of None \<Rightarrow> rest | Some y \<Rightarrow> y # rest)))"

section \<open>get_product_by_id (main.py, lines 82-91)\<close>

text \<open>
  The body of the \<^verbatim>\<open>try\<close>, and the handler with its \<^verbatim>\<open>except Exception as e\<close>, which
  catches every exception the body raises, \<^verbatim>\<open>HTTPException\<close> included, and raises
  status 500 with \<^verbatim>\<open>str(e)\<close> as detail. \<open>str\<close> is Python's conversion of an exception to text.
\<close>

definition get_product_by_id_try :: "database \<Rightarrow> string \<Rightarrow> exn + dict" where
  "get_product_by_id_try db product_id =
     (case document_get (products db) product_id of
        Some doc \<Rightarrow> Inr [(''product'', PDict (serialize_firestore_document doc))]
      | None \<Rightarrow> Inl (HTTPException 404 ''Product not found''))"

definition get_product_by_id :: "(exn \<Rightarrow> string) \<Rightarrow> database \<Rightarrow> string \<Rightarrow> exn + dict" where
  "get_product_by_id str db product_id =
     (case get_product_by_id_try db product_id of
        Inr r \<Rightarrow> Inr r
      | Inl e \<Rightarrow> Inl (HTTPException 500 (str e)))"

section \<open>find_users (main.py, lines 154-203)\<close>

text \<open>
  The handler binds six locals from \<^verbatim>\<open>query_params(...)\<close> on lines 157-162 and then runs
  the lines below on them. The definitions of this section take the locals as arguments:
  a text or \<^verbatim>\<open>None\<close> for the first three, a number or \<^verbatim>\<open>None\<close> for the last three.
  \<open>str_lower\<close> is Python's \<^verbatim>\<open>str.lower\<close>, which lowers text by the Unicode rules and stays
  a parameter; \<^verbatim>\<open>bytes.lower\<close> exists too, and \<^verbatim>\<open>str in bytes\<close> is a type error.
\<close>

definition keyword_not_in :: "(string \<Rightarrow> string) \<Rightarrow> string \<Rightarrow> pyval \<Rightarrow> exn + bool" where
  "keyword_not_in str_lower kw v =
     (case v of
        PStr s \<Rightarrow> Inr (\<not> sublist (str_lower kw) (str_lower s))
      | PBytes b \<Rightarrow> Inl TypeError
      | _ \<Rightarrow> Inl AttributeError)"

text \<open>
  The condition of lines 179 and 183,
  \<^verbatim>\<open>keyword and keyword.lower() not in (user_data.get(field, '').lower())\<close>:
  \<open>True\<close> when the document is skipped.
\<close>

definition keyword_skips ::
  "(string \<Rightarrow> string) \<Rightarrow> string option \<Rightarrow> string \<Rightarrow> dict \<Rightarrow> exn + bool" where
  "keyword_skips str_lower keyword field user_data =
     (case keyword of
        None \<Rightarrow> Inr False
      | Some kw \<Rightarrow>
          if kw = [] then Inr False
          else keyword_not_in str_lower kw (py_get_default user_data field (PStr [])))"

text \<open>Lines 178-184: the description filter, then the focus-area filter.\<close>

definition keyword_filters ::
  "(string \<Rightarrow> string) \<Rightarrow> string option \<Rightarrow> string option \<Rightarrow> dict \<Rightarrow> exn + bool" where
  "keyword_filters str_lower description_keyword focus_area_keyword user_data =
     (case keyword_skips str_lower description_keyword ''description'' user_data of
        Inl e \<Rightarrow> Inl e
      | Inr True \<Rightarrow> Inr True
      | Inr False \<Rightarrow> keyword_skips str_lower focus_area_keyword ''focus_area'' user_data)"

text \<open>Lines 186-199: the location and radius filter; \<open>None\<close> is \<^verbatim>\<open>continue\<close>.\<close>

definition location_filter ::
  "globals \<Rightarrow> real option \<Rightarrow> real option \<Rightarrow> real option \<Rightarrow> dict \<Rightarrow> exn + dict option" where
  "location_filter g lat lng radius user_data =
     (case (lat, lng, radius) of
        (Some lat', Some lng', Some radius') \<Rightarrow>
          (let user_location = py_get user_data ''location'' in
           if \<not> truthy user_location then Inr None
           else
             (case user_location of
                PDict loc \<Rightarrow>
                  (let user_lat = py_get loc ''latitude'';
                       user_lng = py_get loc ''longitude''
                   in case haversine g (PNum lat') (PNum lng') user_lat user_lng of
                        Inl e \<Rightarrow> Inl e
                      | Inr distance \<Rightarrow>
                          if distance > radius' then Inr None
                          else Inr (Some (dict_set user_data ''distance'' (PNum distance))))
              | _ \<Rightarrow> Inl AttributeError))
      | _ \<Rightarrow> Inr (Some user_data))"

text \<open>Lines 175-201: the body of the loop over the streamed users.\<close>

definition find_users_body ::
  "globals \<Rightarrow> (string \<Rightarrow> string) \<Rightarrow> string option \<Rightarrow> string option \<Rightarrow>
   real option \<Rightarrow> real option \<Rightarrow> real option \<Rightarrow> document \<Rightarrow> exn + dict option" where
  "find_users_body g str_lower description_keyword focus_area_keyword lat lng radius user =
     (let user_data = to_dict user
      in case keyword_filters str_lower description_keyword focus_area_keyword user_data of
           Inl e \<Rightarrow> Inl e
         | Inr True \<Rightarrow> Inr None
         | Inr False \<Rightarrow> location_filter g lat lng radius user_data)"

text \<open>Lines 165-172: the query, narrowed by \<^verbatim>\<open>type\<close> when the local is a non-empty text.\<close>

definition find_users_query :: "database \<Rightarrow> string option \<Rightarrow> document list" where
  "find_users_query db user_type =
     (case user_type of
        None \<Rightarrow> users db
      | Some t \<Rightarrow> if t = [] then users db else where_eq ''type'' (PStr t) (users db))"

text \<open>
  The handler. Line 157 is the first call of \<^verbatim>\<open>query_params\<close>. Line 203 evaluates
  \<^verbatim>\<open>status.HTTP_200_SUCCESS\<close>, builds the response and drops it: the function has no
  \<^verbatim>\<open>return\<close>, so a run that reached its end would return \<^verbatim>\<open>None\<close>.
\<close>

definition find_users ::
  "globals \<Rightarrow> (string \<Rightarrow> string) \<Rightarrow> database \<Rightarrow> request \<Rightarrow> exn + response option" where
  "find_users g str_lower db request =
     (let qp = query_params request
      in case call_query_params qp ''type'' of
           Inl e \<Rightarrow> Inl e
         | Inr user_type \<Rightarrow>
      (case call_query_params qp ''description'' of
           Inl e \<Rightarrow> Inl e
         | Inr description_keyword \<Rightarrow>
      (case call_query_params qp ''focus_area'' of
           Inl e \<Rightarrow> Inl e
         | Inr focus_area_keyword \<Rightarrow>
      (case call_query_params qp ''lat'' of
           Inl e \<Rightarrow> Inl e
         | Inr lat \<Rightarrow>
      (case call_query_params qp ''lng'' of
           Inl e \<Rightarrow> Inl e
         | Inr lng \<Rightarrow>
      (case call_query_params qp ''radius'' of
           Inl e \<Rightarrow> Inl e
         | Inr radius \<Rightarrow>
      (case for_each
              (find_users_body g str_lower description_keyword focus_area_keyword lat lng radius)
              (find_users_query db user_type) of
           Inl e \<Rightarrow> Inl e
         | Inr filtered_users \<Rightarrow>
             (case status_attr g ''HTTP_200_SUCCESS'' of
                Inl e \<Rightarrow> Inl e
              | Inr code \<Rightarrow> (let built = JSONResponse filtered_users code in Inr None)))))))))"

section \<open>find_users_by_location (main.py, lines 206-238)\<close>

text \<open>Lines 220-233: the body of the loop, on the locals \<open>lat\<close>, \<open>lng\<close> and \<open>radius\<close>.\<close>

definition nearby_body :: "globals \<Rightarrow> real \<Rightarrow> real \<Rightarrow> real \<Rightarrow> document \<Rightarrow> exn + dict option" where
  "nearby_body g lat lng radius user =
     (let user_data = to_dict user;
          user_location = py_get user_data ''location''
      in if \<not> truthy user_location then Inr None
         else
           (case user_location of
              PDict loc \<Rightarrow>
                (let user_lat = py_get loc ''latitude'';
                     user_lng = py_get loc ''longitude''
                 in case haversine g (PNum lat) (PNum lng) user_lat user_lng of
                      Inl e \<Rightarrow> Inl e
                    | Inr distance \<Rightarrow>
                        if distance \<le> radius
                        then Inr (Some (dict_set user_data ''distance'' (PNum distance)))
                        else Inr None)
            | _ \<Rightarrow> Inl AttributeError))"

text \<open>
  Line 236, \<^verbatim>\<open>nearby_users.sort(key=lambda x: x['distance'])\<close>: the keys are computed
  first, then the list is sorted by them with a stable sort. The keys the loop stored are
  numbers.
\<close>

definition distance_key :: "dict \<Rightarrow> exn + real" where
  "distance_key x =
     (case dict_get x ''distance'' of
        None \<Rightarrow> Inl KeyError
      | Some v \<Rightarrow> (case num_of v of None \<Rightarrow> Inl TypeError | Some d \<Rightarrow> Inr d))"

fun distance_keys :: "dict list \<Rightarrow> exn + real list" where
  "distance_keys [] = Inr []"
| "distance_keys (x # xs) =
     (case distance_key x of
        Inl e \<Rightarrow> Inl e
      | Inr d \<Rightarrow>
          (case distance_keys xs of
             Inl e \<Rightarrow> Inl e
           | Inr ds \<Rightarrow> Inr (d # ds)))"

definition sort_by_distance :: "dict list \<Rightarrow> exn + dict list" where
  "sort_by_distance xs =
     (case distance_keys xs of
        Inl e \<Rightarrow> Inl e
      | Inr ds \<Rightarrow> Inr (map snd (sort_key fst (zip ds xs))))"

text \<open>
  The handler. Line 209 is the first call of \<^verbatim>\<open>query_params\<close>; the call for the radius
  names the default 10, so its local is a number. Line 238 evaluates
  \<^verbatim>\<open>status.HTTP_200_SUCCESS\<close> for the response it returns.
\<close>

definition find_users_by_location :: "globals \<Rightarrow> database \<Rightarrow> request \<Rightarrow> exn + response" where
  "find_users_by_location g db request =
     (let qp = query_params request
      in case call_query_params qp ''lat'' of
           Inl e \<Rightarrow> Inl e
         | Inr lat \<Rightarrow>
      (case call_query_params qp ''lng'' of
           Inl e \<Rightarrow> Inl e
         | Inr lng \<Rightarrow>
      (case call_query_params qp ''radius'' of
           Inl e \<Rightarrow> Inl e
         | Inr radius \<Rightarrow>
      (case (lat, lng) of
         (Some lat', Some lng') \<Rightarrow>
           (let users_ref = where_not_none ''location'' (users db)
            in case for_each (nearby_body g lat' lng' radius) users_ref of
                 Inl e \<Rightarrow> Inl e
               | Inr nearby_users \<Rightarrow>
                   (case sort_by_distance nearby_users of
                      Inl e \<Rightarrow> Inl e
                    | Inr sorted_users \<Rightarrow>
                        (case status_attr g ''HTTP_200_SUCCESS'' of
                           Inl e \<Rightarrow> Inl e
                         | Inr code \<Rightarrow> Inr (JSONResponse sorted_users code))))
       | _ \<Rightarrow> Inl (HTTPException 400 ''No products found at the given location'')))))"

text \<open>The sort key of a dictionary whose \<^verbatim>\<open>distance\<close> is a number.\<close>

definition dist_of :: "dict \<Rightarrow> real" where
  "dist_of x = (case distance_key x of Inr d \<Rightarrow> d | Inl e \<Rightarrow> 0)"

section \<open>Concrete inputs\<close>

definition product_doc :: document where
  "product_doc =
     \<lparr>doc_id = ''p1'',
      doc_fields = [(''name'', PStr ''rice''), (''location'', PGeo 12 77)]\<rparr>"

definition doc_with_id_field :: document where
  "doc_with_id_field = \<lparr>doc_id = ''abc'', doc_fields = [(''id'', PStr ''x'')]\<rparr>"




text \<open>
  Users as \<^verbatim>\<open>register_user\<close> means to store them: the location is the mapping of the
  request body, and a field the request leaves out is stored as null.
\<close>

definition located_user :: "string \<Rightarrow> real \<Rightarrow> real \<Rightarrow> document" where
  "located_user i la lo =
     \<lparr>doc_id = i,
      doc_fields = [(''phone_number'', PStr ''100''), (''type'', PStr ''seller''),
                    (''description'', PStr ''Basmati RICE and wheat''),
                    (''location'', PDict [(''latitude'', PNum la), (''longitude'', PNum lo)])]\<rparr>"

definition near_user :: document where
  "near_user = located_user ''u1'' 0 (1/20)"

definition far_user :: document where
  "far_user = located_user ''u2'' 1 1"

definition minimal_user :: document where
  "minimal_user =
     \<lparr>doc_id = ''u0'',
      doc_fields = [(''phone_number'', PStr ''100''), (''password'', PNone), (''email'', PNone),
                    (''name'', PNone), (''type'', PStr ''buyer''), (''description'', PNone),
                    (''location'', PNone), (''focus_area'', PNone)]\<rparr>"

definition plain_user :: document where
  "plain_user =
     \<lparr>doc_id = ''u3'',
      doc_fields = [(''phone_number'', PStr ''101''), (''type'', PStr ''buyer''),
                    (''description'', PStr ''buys maize'')]\<rparr>"

definition scenario_db :: database where
  "scenario_db = \<lparr>products = [product_doc], users = [near_user, far_user]\<rparr>"

definition unsorted_db :: database where
  "unsorted_db = \<lparr>products = [], users = [far_user, near_user]\<rparr>"

definition mixed_db :: database where
  "mixed_db = \<lparr>products = [], users = [plain_user, near_user]\<rparr>"

definition rice_db :: database where
  "rice_db = \<lparr>products = [], users = [near_user, minimal_user]\<rparr>"

text \<open>The requests, by their query strings.\<close>

definition no_params :: request where
  "no_params = \<lparr>query_params = []\<rparr>"

definition center_request :: request where
  "center_request = \<lparr>query_params = [(''lat'', ''0''), (''lng'', ''0'')]\<rparr>"

definition wide_request :: request where
  "wide_request = \<lparr>query_params = [(''lat'', ''0''), (''lng'', ''0''), (''radius'', ''500'')]\<rparr>"

definition rice_request :: request where
  "rice_request = \<lparr>query_params = [(''description'', ''rice'')]\<rparr>"

definition radius_only_request :: request where
  "radius_only_request = \<lparr>query_params = [(''radius'', ''5'')]\<rparr>"

section \<open>Dictionary lemmas\<close>

lemma dict_get_dict_set:
  "dict_get (dict_set d k v) k' = (if k' = k then Some v else dict_get d k')"
  by (induction d k v rule: dict_set.induct) (auto simp: dict_get_def)

lemma dict_get_map_values:
  "dict_get (map (\<lambda>(key, val). (key, f val)) d) k = map_option f (dict_get d k)"
  by (induction d) (auto simp: dict_get_def)

section \<open>Serialization\<close>

text \<open>
  C9, as the code has it. The serialized mapping has \<^verbatim>\<open>id\<close> equal to the document's
  identifier. Every other key is a key of the result exactly when it is a field of the
  document; a geo-point field is replaced by its latitude/longitude pair and any other
  field keeps its value. The function is total: it has no error case.
\<close>

theorem serialize_fields:
  "dict_get (serialize_firestore_document doc) ''id'' = Some (PStr (doc_id doc)) \<and>
   (\<forall>k. k \<noteq> ''id'' \<longrightarrow>
      (dict_get (doc_fields doc) k = None \<longrightarrow>
         dict_get (serialize_firestore_document doc) k = None) \<and>
      (\<forall>la lo. dict_get (doc_fields doc) k = Some (PGeo la lo) \<longrightarrow>
         dict_get (serialize_firestore_document doc) k =
           Some (PDict [(''latitude'', PNum la), (''longitude'', PNum lo)])) \<and>
      (\<forall>v. dict_get (doc_fields doc) k = Some v \<and> \<not> is_geopoint v \<longrightarrow>
         dict_get (serialize_firestore_document doc) k = Some v))"
proof -
  let ?flat = "\<lambda>val. case val of
                 PGeo la lo \<Rightarrow> PDict [(''latitude'', PNum la), (''longitude'', PNum lo)]
               | _ \<Rightarrow> val"
  have get: "dict_get (serialize_firestore_document doc) k =
      map_option ?flat (if k = ''id'' then Some (PStr (doc_id doc)) else dict_get (doc_fields doc) k)"
    for k
    unfolding serialize_firestore_document_def Let_def to_dict_def
    by (simp only: dict_get_map_values dict_get_dict_set)
  have keep: "?flat v = v" if "\<not> is_geopoint v" for v
    using that by (cases v) simp_all
  show ?thesis
    by (auto simp: get keep)
qed

theorem serialize_fields_witness:
  "''location'' \<noteq> ''id'' \<and> ''name'' \<noteq> ''id'' \<and> ''price'' \<noteq> ''id'' \<and>
   dict_get (doc_fields product_doc) ''location'' = Some (PGeo 12 77) \<and>
   dict_get (doc_fields product_doc) ''name'' = Some (PStr ''rice'') \<and>
   \<not> is_geopoint (PStr ''rice'') \<and>
   dict_get (doc_fields product_doc) ''price'' = None \<and>
   dict_get (serialize_firestore_document product_doc) ''id'' = Some (PStr ''p1'') \<and>
   dict_get (serialize_firestore_document product_doc) ''location'' =
     Some (PDict [(''latitude'', PNum 12), (''longitude'', PNum 77)]) \<and>
   dict_get (serialize_firestore_document product_doc) ''name'' = Some (PStr ''rice'') \<and>
   dict_get (serialize_firestore_document product_doc) ''price'' = None"
proof -
  have f: "dict_get (doc_fields product_doc) ''location'' = Some (PGeo 12 77)"
    "dict_get (doc_fields product_doc) ''name'' = Some (PStr ''rice'')"
    "dict_get (doc_fields product_doc) ''price'' = None"
    by (simp_all add: product_doc_def dict_get_def)
  have i: "doc_id product_doc = ''p1''"
    by (simp add: product_doc_def)
  from serialize_fields [of product_doc] f i show ?thesis
    by simp
qed

text \<open>
  C9 as stated fails on a document that has a field named \<^verbatim>\<open>id\<close>: the field is not a
  geo-point, and the result holds the document identifier in its place.
\<close>

theorem serialize_id_field_counterexample:
  "dict_get (doc_fields doc_with_id_field) ''id'' = Some (PStr ''x'') \<and>
   \<not> is_geopoint (PStr ''x'') \<and>
   dict_get (serialize_firestore_document doc_with_id_field) ''id'' \<noteq> Some (PStr ''x'')"
  by (simp add: doc_with_id_field_def dict_get_def serialize_firestore_document_def to_dict_def)

section \<open>Password hashing\<close>






section \<open>The distance helper\<close>

text \<open>
  C8. The claim gives \<^verbatim>\<open>haversine\<close> three properties of its result. In the module as
  written the function has no result: whatever the four arguments are, evaluating its
  first line raises \<^verbatim>\<open>NameError\<close>, because no statement of \<^verbatim>\<open>main.py\<close> binds \<^verbatim>\<open>math\<close>.
\<close>

theorem haversine_math_unbound:
  "haversine main_globals lat1 lon1 lat2 lon2 = Inl NameError"
  by (simp add: haversine_def main_globals_def)

lemma haversine_unbound:
  "g_math g = None \<Longrightarrow> haversine g lat1 lon1 lat2 lon2 = Inl NameError"
  by (simp add: haversine_def)

section \<open>The loops\<close>

lemma for_each_total:
  assumes "\<forall>x \<in> set xs. body x = Inr (if skip x then None else Some (f x))"
  shows "for_each body xs = Inr (map f (filter (\<lambda>x. \<not> skip x) xs))"
  using assms by (induction xs) simp_all

lemma for_each_no_append:
  assumes "\<forall>x \<in> set xs. \<forall>y. body x \<noteq> Inr (Some y)"
    and "for_each body xs = Inr ys"
  shows "ys = []"
  using assms
proof (induction xs arbitrary: ys)
  case Nil
  then show ?case
    by simp
next
  case (Cons x xs)
  then show ?case
    by (auto split: sum.splits option.splits)
qed

section \<open>The sort by distance\<close>

text \<open>
  Line 236 on a list whose elements all have a numeric \<^verbatim>\<open>distance\<close>: the result is the
  stable sort of the list by that key. It is sorted, it has the same elements, and the
  elements of equal distance keep their order.
\<close>

lemma insort_key_map:
  "insort_key k (h x) (map h ys) = map h (insort_key (\<lambda>a. k (h a)) x ys)"
  by (induction ys) simp_all

lemma sort_key_map:
  "sort_key k (map h xs) = map h (sort_key (\<lambda>a. k (h a)) xs)"
  by (induction xs) (simp_all add: insort_key_map)

lemma distance_keys_Inr:
  assumes "distance_keys xs = Inr ds"
  shows "ds = map dist_of xs \<and> (\<forall>x \<in> set xs. distance_key x = Inr (dist_of x))"
  using assms
proof (induction xs arbitrary: ds)
  case Nil
  then show ?case
    by simp
next
  case (Cons x xs)
  then show ?case
    by (auto simp: dist_of_def split: sum.splits)
qed

lemma distance_keys_total:
  assumes "\<forall>x \<in> set xs. distance_key x = Inr (dist_of x)"
  shows "distance_keys xs = Inr (map dist_of xs)"
  using assms by (induction xs) simp_all

lemma sort_by_distance_eq:
  assumes "distance_keys xs = Inr ds"
  shows "sort_by_distance xs = Inr (sort_key dist_of xs)"
proof -
  have ds: "ds = map dist_of xs"
    using distance_keys_Inr [OF assms] by simp
  have "zip (map dist_of xs) xs = map (\<lambda>x. (dist_of x, x)) xs"
    by (simp add: zip_map1 zip_same_conv_map)
  then have "map snd (sort_key fst (zip ds xs)) = sort_key dist_of xs"
    by (simp add: ds sort_key_map comp_def)
  with assms show ?thesis
    by (simp add: sort_by_distance_def)
qed

lemma sort_by_distance_stable_sorted:
  assumes "distance_keys xs = Inr ds"
  shows "\<exists>ys. sort_by_distance xs = Inr ys \<and>
              sorted (map dist_of ys) \<and>
              mset ys = mset xs \<and>
              (\<forall>k. filter (\<lambda>y. dist_of y = k) ys = filter (\<lambda>x. dist_of x = k) xs)"
  using sort_by_distance_eq [OF assms] by (simp add: sort_key_stable)

lemma dist_of_dict_set:
  "distance_key (dict_set d ''distance'' (PNum x)) = Inr x"
  "dist_of (dict_set d ''distance'' (PNum x)) = x"
  by (simp_all add: dist_of_def distance_key_def dict_get_dict_set)

section \<open>The first line of the search handlers\<close>

text \<open>
  Each search handler starts with a call of \<^verbatim>\<open>request.query_params\<close>, which raises
  \<^verbatim>\<open>TypeError\<close>: for every store and every request the handler ends there, before it reads
  a parameter, tests one, or reads the store. Neither handler has a \<^verbatim>\<open>try\<close>.
\<close>

lemma find_users_by_location_raises:
  "find_users_by_location g db request = Inl TypeError"
  by (simp add: find_users_by_location_def call_query_params_def)

lemma find_users_raises:
  "find_users g str_lower db request = Inl TypeError"
  by (simp add: find_users_def call_query_params_def)

text \<open>
  The lines after the calls have defects of their own, which a repair of the calls would
  meet next: \<^verbatim>\<open>status\<close> has no \<^verbatim>\<open>HTTP_200_SUCCESS\<close>; without \<^verbatim>\<open>math\<close> the loop of
  \<^verbatim>\<open>find_users_by_location\<close> appends nothing; and the keyword test raises on a field stored
  as null. With latitude, longitude or radius \<^verbatim>\<open>None\<close> the location filter of
  \<^verbatim>\<open>find_users\<close> keeps the document as it is.
\<close>

lemma status_has_no_200_success:
  "status_attr main_globals ''HTTP_200_SUCCESS'' = Inl AttributeError"
  by (simp add: status_attr_def main_globals_def fastapi_status_def)

lemma nearby_body_unbound:
  assumes "g_math g = None"
  shows "nearby_body g lat lng radius u \<noteq> Inr (Some y)"
  using assms
  by (auto simp: nearby_body_def Let_def haversine_unbound split: pyval.splits)

lemma keyword_skips_null:
  assumes "kw \<noteq> []" and "dict_get d field = Some PNone"
  shows "keyword_skips str_lower (Some kw) field d = Inl AttributeError"
  using assms by (simp add: keyword_skips_def keyword_not_in_def py_get_default_def)

lemma location_filter_skipped:
  assumes "lat = None \<or> lng = None \<or> radius = None"
  shows "location_filter g lat lng radius user_data = Inr (Some user_data)"
  using assms by (auto simp: location_filter_def split: option.splits)

section \<open>The handler of GET /find_by_location\<close>

text \<open>
  C1. The claim says which documents the proximity filter includes. On the scenario of
  the specification (center (0, 0), no radius in the query, one user at (0, 0.05) and one
  at (1, 1)) the handler includes none: line 209 calls \<^verbatim>\<open>request.query_params\<close> and the
  request ends in \<^verbatim>\<open>TypeError\<close>.
\<close>

theorem find_by_location_scenario:
  "find_users_by_location main_globals scenario_db center_request = Inl TypeError"
  by (simp add: find_users_by_location_def call_query_params_def)

text \<open>
  C3. The claim says the returned list is sorted by distance. With a far user stored
  before a near one and a radius that covers both, the handler returns no list: the
  request ends in \<^verbatim>\<open>TypeError\<close> on line 209.
\<close>

theorem find_by_location_unsorted_input:
  "find_users_by_location main_globals unsorted_db wide_request = Inl TypeError"
  by (simp add: find_users_by_location_def call_query_params_def)

text \<open>
  C4. The claim says a request without latitude or longitude gets status 400. With only a
  radius in the query the handler does not reach the test of line 213: the request ends
  in \<^verbatim>\<open>TypeError\<close> on line 209, not in the \<^verbatim>\<open>HTTPException\<close> of line 214.
\<close>

theorem find_by_location_radius_only:
  "find_users_by_location main_globals scenario_db radius_only_request = Inl TypeError"
  by (simp add: find_users_by_location_def call_query_params_def)

section \<open>The handler of GET /users/find\<close>

text \<open>
  C2. The claim says a document is kept exactly when it passes the supplied filters. With
  a description keyword in the query and two stored users, one whose description
  contains it, the handler keeps none: line 157 calls \<^verbatim>\<open>request.query_params\<close> and the
  request ends in \<^verbatim>\<open>TypeError\<close>.
\<close>

theorem find_users_description_request:
  "find_users main_globals str_lower rice_db rice_request = Inl TypeError"
  by (simp add: find_users_def call_query_params_def)

text \<open>
  C6. The claim says the handler returns status 200 with the filtered list as body. With
  no query parameter and two stored users it returns nothing: the request ends in
  \<^verbatim>\<open>TypeError\<close> on line 157.
\<close>

theorem find_users_no_params:
  "find_users main_globals str_lower mixed_db no_params = Inl TypeError"
  by (simp add: find_users_def call_query_params_def)

text \<open>
  C10. The claim says that without a radius the distance constraint is skipped and a user
  without a location is still included. With latitude and longitude in the query, no
  radius, and a stored user that has no location, no user is included: the request ends
  in \<^verbatim>\<open>TypeError\<close> on line 157.
\<close>

theorem find_users_without_radius:
  "find_users main_globals str_lower mixed_db center_request = Inl TypeError"
  by (simp add: find_users_def call_query_params_def)

section \<open>The handler of GET /products/id\<close>

text \<open>
  C5. The claim says an unknown product id gives status 404. The handler raises the 404
  inside its own \<^verbatim>\<open>try\<close>, the \<^verbatim>\<open>except Exception\<close> clause catches it, and what leaves the
  handler is status 500 with the text of the 404 as detail.
\<close>

theorem get_unknown_product:
  "get_product_by_id str \<lparr>products = [product_doc], users = []\<rparr> ''unknown-id'' =
     Inl (HTTPException 500 (str (HTTPException 404 ''Product not found'')))"
  by (simp add: get_product_by_id_def get_product_by_id_try_def document_get_def product_doc_def)

lemma get_product_by_id_status:
  "get_product_by_id str db product_id = Inl e \<Longrightarrow> \<exists>d. e = HTTPException 500 d"
  by (auto simp: get_product_by_id_def split: sum.splits)

end
